theory Spec2Isabelle
  imports Main
begin

section \<open>Data model of \<^verbatim>\<open>pauth.requests\<close>\<close>

text \<open>
  A Python dictionary is modelled as an association list in its iteration order; the keys
  of a dictionary are pairwise different, which the theorems below never need. Header
  values may be \<^verbatim>\<open>None\<close> in Python, so they are optional strings; parameter values
  are strings.
\<close>

type_synonym params = "(string \<times> string) list"
type_synonym hdrs = "(string \<times> string option) list"

text \<open>
  Modelled from the spec: the classes \<^verbatim>\<open>ClientCredentials\<close> and \<^verbatim>\<open>Client\<close> live in
  \<^verbatim>\<open>pauth.credentials\<close> and \<^verbatim>\<open>pauth.clients\<close>. Credentials are an identifier and an
  optional secret, compared by value; a client owns its credentials, and building either
  never fails.
\<close>

record credentials =
  "identifier" :: string
  secret :: "string option"

record client =
  credentials :: credentials

text \<open>
  Modelled from the spec: \<^verbatim>\<open>Client.is_registered()\<close> and \<^verbatim>\<open>Client.is_authorized()\<close>
  consult a client registry outside this module; the registry is a parameter giving the
  two answers for every client.
\<close>

record registry =
  is_registered :: "client \<Rightarrow> bool"
  is_authorized :: "client \<Rightarrow> bool"

text \<open>The three exceptions \<^verbatim>\<open>validate\<close> raises, each with its constructor argument.\<close>

datatype error =
  InvalidAuthorizationRequestError string
| UnknownClientError "client option"
| UnauthorizedClientError "client option"

text \<open>The attributes \<^verbatim>\<open>__init__\<close> assigns on \<^verbatim>\<open>self\<close>.\<close>

record request =
  "method" :: string
  headers :: hdrs
  parameters :: params
  client :: "client option"
  response_type :: "string option"
  state :: "string option"

text \<open>
  Registry lookups are the only effects of validation. Every lookup is appended to a log,
  and the object under validation is threaded through, so that both what was asked of the
  registry and what happened to the object can be read off the result.
\<close>

datatype call = IsRegistered client | IsAuthorized client

record world =
  self :: request
  calls :: "call list"

section \<open>Operations\<close>

text \<open>\<^verbatim>\<open>str.lower()\<close> on ASCII text: the letters A to Z move to a to z.\<close>

definition lower_char :: "char \<Rightarrow> char" where
  "lower_char c =
     (if 65 \<le> (of_char c :: nat) \<and> (of_char c :: nat) \<le> 90
      then char_of ((of_char c :: nat) + 32) else c)"

definition lower :: "string \<Rightarrow> string" where
  "lower s = map lower_char s"

text \<open>\<^verbatim>\<open>d.get(k)\<close>, and \<^verbatim>\<open>d[k]\<close> once \<^verbatim>\<open>k in d\<close> is known.\<close>

definition get :: "('k \<times> 'v) list \<Rightarrow> 'k \<Rightarrow> 'v option" where
  "get d k = map_of d k"

text \<open>\<^verbatim>\<open>k in d\<close>.\<close>

definition has_key :: "('k \<times> 'v) list \<Rightarrow> 'k \<Rightarrow> bool" where
  "has_key d k = List.member (map fst d) k"

text \<open>\<^verbatim>\<open>d or {}\<close>: \<^verbatim>\<open>None\<close> and the empty dictionary are both falsy.\<close>

fun or_empty :: "('k \<times> 'v) list option \<Rightarrow> ('k \<times> 'v) list" where
  "or_empty None = []"
| "or_empty (Some d) = (if d = [] then [] else d)"

text \<open>\<^verbatim>\<open>next(iterator, default)\<close> on the items an iterator yields.\<close>

fun next_default :: "'a list \<Rightarrow> 'a \<Rightarrow> 'a" where
  "next_default [] d = d"
| "next_default (x # xs) d = x"

text \<open>
  \<^verbatim>\<open>Request._has_required_parameters\<close>:
  \<^verbatim>\<open>all(p in self.required_parameters for p in self.parameters)\<close>. The class attribute
  \<^verbatim>\<open>required_parameters\<close> of the variant is the first argument.
\<close>

definition has_required_parameters :: "string list \<Rightarrow> request \<Rightarrow> bool" where
  "has_required_parameters required_parameters r =
     list_all (\<lambda>p. List.member required_parameters p) (map fst (parameters r))"

text \<open>\<^verbatim>\<open>Request.has_header\<close>.\<close>

definition has_header :: "request \<Rightarrow> string \<Rightarrow> bool" where
  "has_header r header = list_ex (\<lambda>h. lower header = lower h) (map fst (headers r))"

text \<open>\<^verbatim>\<open>Request.get_header\<close>.\<close>

definition get_header :: "request \<Rightarrow> string \<Rightarrow> string option" where
  "get_header r header =
     next_default (map snd (filter (\<lambda>(k, v). lower k = lower header) (headers r))) None"

text \<open>The two registry lookups, each leaving its mark in the log.\<close>

definition call_is_registered :: "registry \<Rightarrow> client \<Rightarrow> world \<Rightarrow> bool \<times> world" where
  "call_is_registered reg c w = (is_registered reg c, w\<lparr>calls := calls w @ [IsRegistered c]\<rparr>)"

definition call_is_authorized :: "registry \<Rightarrow> client \<Rightarrow> world \<Rightarrow> bool \<times> world" where
  "call_is_authorized reg c w = (is_authorized reg c, w\<lparr>calls := calls w @ [IsAuthorized c]\<rparr>)"

text \<open>\<^verbatim>\<open>Request.validate\<close>: \<^verbatim>\<open>Inl\<close> is the exception raised, \<^verbatim>\<open>Inr ()\<close> a normal return.\<close>

definition validate :: "string list \<Rightarrow> registry \<Rightarrow> world \<Rightarrow> (error + unit) \<times> world" where
  "validate required_parameters reg w =
     (if \<not> has_required_parameters required_parameters (self w)
      then (Inl (InvalidAuthorizationRequestError
                  ''Some required request parameters are missing.''), w)
      else
        (case client (self w) of
           None \<Rightarrow> (Inl (UnknownClientError (client (self w))), w)
         | Some c \<Rightarrow>
            (case call_is_registered reg c w of
               (registered, w1) \<Rightarrow>
                 if \<not> registered then (Inl (UnknownClientError (client (self w1))), w1)
                 else
                   (case call_is_authorized reg c w1 of
                      (authorized, w2) \<Rightarrow>
                        if \<not> authorized
                        then (Inl (UnauthorizedClientError (client (self w2))), w2)
                        else (Inr (), w2)))))"

text \<open>
  The assignments of \<^verbatim>\<open>Request.__init__\<close> before it calls \<^verbatim>\<open>validate\<close>: the object in
  its unvalidated state.
\<close>

definition assign_fields :: "string \<Rightarrow> hdrs option \<Rightarrow> params option \<Rightarrow> request" where
  "assign_fields meth hs ps =
     (let parameters' = or_empty ps in
      \<lparr> method = meth,
        headers = or_empty hs,
        parameters = parameters',
        client =
          (if has_key parameters' ''client_id''
           then Some \<lparr> credentials =
                        \<lparr> identifier = the (get parameters' ''client_id''),
                          secret = get parameters' ''client_secret'' \<rparr> \<rparr>
           else None),
        response_type = get parameters' ''response_type'',
        state = get parameters' ''state'' \<rparr>)"

text \<open>
  \<^verbatim>\<open>Request.__init__\<close> for a variant with the given \<^verbatim>\<open>required_parameters\<close>: the
  exception raised or the object constructed, and the registry lookups made.
\<close>

definition Request_init ::
  "string list \<Rightarrow> registry \<Rightarrow> string \<Rightarrow> hdrs option \<Rightarrow> params option
     \<Rightarrow> (error + request) \<times> call list" where
  "Request_init required_parameters reg meth hs ps =
     (case validate required_parameters reg \<lparr> self = assign_fields meth hs ps, calls = [] \<rparr> of
        (Inl e, w) \<Rightarrow> (Inl e, calls w)
      | (Inr u, w) \<Rightarrow> (Inr (self w), calls w))"

text \<open>A registry that knows and authorizes exactly the client named \<^verbatim>\<open>abc\<close>.\<close>

definition registry_abc :: registry where
  "registry_abc =
     \<lparr> is_registered = (\<lambda>c. identifier (credentials c) = ''abc''),
       is_authorized = (\<lambda>c. identifier (credentials c) = ''abc'') \<rparr>"

text \<open>A registry that knows the client named \<^verbatim>\<open>abc\<close> and authorizes nobody.\<close>

definition registry_unauthorized :: registry where
  "registry_unauthorized =
     \<lparr> is_registered = (\<lambda>c. identifier (credentials c) = ''abc''),
       is_authorized = (\<lambda>c. False) \<rparr>"

text \<open>The clients built from \<^verbatim>\<open>{client_id: "abc"}\<close> and from \<^verbatim>\<open>{client_id: "zzz"}\<close>.\<close>

definition client_abc :: client where
  "client_abc = \<lparr> credentials = \<lparr> identifier = ''abc'', secret = None \<rparr> \<rparr>"

definition client_zzz :: client where
  "client_zzz = \<lparr> credentials = \<lparr> identifier = ''zzz'', secret = None \<rparr> \<rparr>"

text \<open>
  Unvalidated objects of the variant requiring only \<^verbatim>\<open>client_id\<close>, before any registry
  lookup: from \<^verbatim>\<open>{client_id: "abc"}\<close>, from \<^verbatim>\<open>{client_id: "zzz"}\<close>, from
  \<^verbatim>\<open>{scope: "read"}\<close> and from no parameters.
\<close>

definition world_abc :: world where
  "world_abc = \<lparr> self = assign_fields ''GET'' None (Some [(''client_id'', ''abc'')]), calls = [] \<rparr>"

definition world_zzz :: world where
  "world_zzz = \<lparr> self = assign_fields ''GET'' None (Some [(''client_id'', ''zzz'')]), calls = [] \<rparr>"

definition world_scope :: world where
  "world_scope = \<lparr> self = assign_fields ''GET'' None (Some [(''scope'', ''read'')]), calls = [] \<rparr>"

definition world_empty :: world where
  "world_empty = \<lparr> self = assign_fields ''GET'' None None, calls = [] \<rparr>"

text \<open>An object with the headers of Scenario E, and one with headers that differ in case only.\<close>

definition request_json :: request where
  "request_json =
     assign_fields ''GET'' (Some [(''Content-Type'', Some ''application/json'')]) None"

definition request_duplicates :: request where
  "request_duplicates =
     assign_fields ''GET''
       (Some [(''Accept'', Some ''text/html''),
              (''Content-Type'', Some ''application/json''),
              (''content-type'', Some ''text/plain'')]) None"

section \<open>Construction and the required-parameter check\<close>

lemmas model_defs = Request_init_def validate_def assign_fields_def has_required_parameters_def
  has_key_def get_def call_is_registered_def call_is_authorized_def

text \<open>
  Claim C1, as stated, fails: with parameters \<^verbatim>\<open>{client_id: "abc"}\<close> under a variant
  requiring \<^verbatim>\<open>client_id\<close> and \<^verbatim>\<open>response_type\<close>, the name \<^verbatim>\<open>response_type\<close> is
  required and absent, yet construction raises nothing and returns the object. And where
  the error is raised it does not tell which names are missing: a mapping that lacks
  \<^verbatim>\<open>response_type\<close> and one that lacks \<^verbatim>\<open>client_id\<close> get the same error.
\<close>

theorem missing_required_parameter_accepted:
  "List.member [''client_id'', ''response_type''] ''response_type'' \<and>
   \<not> has_key [(''client_id'', ''abc'')] ''response_type'' \<and>
   fst (Request_init [''client_id'', ''response_type''] registry_abc ''GET'' None
          (Some [(''client_id'', ''abc'')])) =
     Inr \<lparr> method = ''GET'', headers = [], parameters = [(''client_id'', ''abc'')],
           client = Some \<lparr> credentials = \<lparr> identifier = ''abc'', secret = None \<rparr> \<rparr>,
           response_type = None, state = None \<rparr> \<and>
   fst (Request_init [''client_id'', ''response_type''] registry_abc ''GET'' None
          (Some [(''client_id'', ''abc''), (''scope'', ''read'')])) =
     Inl (InvalidAuthorizationRequestError ''Some required request parameters are missing.'') \<and>
   fst (Request_init [''client_id'', ''response_type''] registry_abc ''GET'' None
          (Some [(''response_type'', ''code''), (''scope'', ''read'')])) =
     Inl (InvalidAuthorizationRequestError ''Some required request parameters are missing.'')"
  by (simp add: model_defs registry_abc_def)

text \<open>
  Claim C1, amended: for every variant, registry and input, construction raises
  \<^verbatim>\<open>InvalidAuthorizationRequestError\<close> exactly when the check
  \<^verbatim>\<open>_has_required_parameters()\<close> of the variant returns false, and the error then carries
  the fixed message \<^verbatim>\<open>Some required request parameters are missing.\<close>, which names no
  parameter.
\<close>

theorem invalid_request_error_iff_check_fails:
  "fst (Request_init req reg m hs ps) = Inl (InvalidAuthorizationRequestError msg) \<longleftrightarrow>
     \<not> has_required_parameters req (assign_fields m hs ps) \<and>
     msg = ''Some required request parameters are missing.''"
  by (auto simp add: Request_init_def validate_def call_is_registered_def call_is_authorized_def
      split: option.splits prod.splits sum.splits)

text \<open>
  The amended C1 at \<^verbatim>\<open>{client_id: "abc", scope: "read"}\<close> under the variant requiring
  \<^verbatim>\<open>client_id\<close> and \<^verbatim>\<open>response_type\<close>.
\<close>

theorem invalid_request_error_iff_check_fails_witness:
  "fst (Request_init [''client_id'', ''response_type''] registry_abc ''GET'' None
          (Some [(''client_id'', ''abc''), (''scope'', ''read'')])) =
     Inl (InvalidAuthorizationRequestError ''Some required request parameters are missing.'')"
  using invalid_request_error_iff_check_fails
      [of "[''client_id'', ''response_type'']" registry_abc "''GET''" None
        "Some [(''client_id'', ''abc''), (''scope'', ''read'')]"
        "''Some required request parameters are missing.''"]
  by (simp add: has_required_parameters_def assign_fields_def Let_def)

text \<open>
  Claim C2 (Scenario A): the variant requires \<^verbatim>\<open>client_id\<close> and \<^verbatim>\<open>response_type\<close>, the
  registry knows and authorizes \<^verbatim>\<open>abc\<close>, and the parameters are \<^verbatim>\<open>client_id\<close>,
  \<^verbatim>\<open>client_secret\<close>, \<^verbatim>\<open>response_type\<close> and \<^verbatim>\<open>state\<close>. The claim expects success; the
  code raises \<^verbatim>\<open>InvalidAuthorizationRequestError\<close> without asking the registry, because
  \<^verbatim>\<open>client_secret\<close> and \<^verbatim>\<open>state\<close> are not among the required names.
\<close>

theorem scenario_a_rejected:
  "Request_init [''client_id'', ''response_type''] registry_abc ''GET'' None
     (Some [(''client_id'', ''abc''), (''client_secret'', ''s3cr3t''),
            (''response_type'', ''code''), (''state'', ''xyz'')]) =
   (Inl (InvalidAuthorizationRequestError ''Some required request parameters are missing.''), [])"
  by (simp add: model_defs)

section \<open>Requests without a client identifier\<close>

text \<open>
  Claim C3, as stated, fails: parameters without \<^verbatim>\<open>client_id\<close> that do not pass the
  required-parameter check are rejected with \<^verbatim>\<open>InvalidAuthorizationRequestError\<close>, not
  with \<^verbatim>\<open>UnknownClientError\<close>, since that check comes first.
\<close>

theorem no_client_id_invalid_request:
  "\<not> has_key [(''response_type'', ''code''), (''scope'', ''read'')] ''client_id'' \<and>
   Request_init [''client_id'', ''response_type''] registry_abc ''GET'' None
     (Some [(''response_type'', ''code''), (''scope'', ''read'')]) =
   (Inl (InvalidAuthorizationRequestError ''Some required request parameters are missing.''), [])"
  by (simp add: model_defs)

text \<open>
  Claim C3, amended: for every parameter mapping without the key \<^verbatim>\<open>client_id\<close> the
  \<^verbatim>\<open>client\<close> attribute is null, and if the mapping passes the required-parameter check of
  the variant, construction fails with \<^verbatim>\<open>UnknownClientError\<close> carrying that null client,
  without a registry lookup.
\<close>

theorem no_client_id_unknown_client:
  assumes "\<not> has_key (or_empty ps) ''client_id''"
  shows "client (assign_fields m hs ps) = None \<and>
         (has_required_parameters req (assign_fields m hs ps) \<longrightarrow>
            Request_init req reg m hs ps = (Inl (UnknownClientError None), []))"
  using assms by (simp add: Request_init_def validate_def assign_fields_def Let_def)

text \<open>
  The amended C3 at Scenario B, \<^verbatim>\<open>{response_type: "code"}\<close>, under the variant requiring
  \<^verbatim>\<open>client_id\<close> and \<^verbatim>\<open>response_type\<close>.
\<close>

theorem no_client_id_unknown_client_witness:
  "\<not> has_key (or_empty (Some [(''response_type'', ''code'')])) ''client_id'' \<and>
   has_required_parameters [''client_id'', ''response_type'']
     (assign_fields ''GET'' None (Some [(''response_type'', ''code'')])) \<and>
   client (assign_fields ''GET'' None (Some [(''response_type'', ''code'')])) = None \<and>
   Request_init [''client_id'', ''response_type''] registry_abc ''GET'' None
     (Some [(''response_type'', ''code'')]) = (Inl (UnknownClientError None), [])"
  using no_client_id_unknown_client [of "Some [(''response_type'', ''code'')]" "''GET''" None
      "[''client_id'', ''response_type'']" registry_abc]
  by (simp add: has_key_def has_required_parameters_def assign_fields_def Let_def)

text \<open>
  Claim C4: the base variant has no required parameters. Every non-empty parameter mapping
  fails the required-parameter check; an empty or absent one gives a null client and
  \<^verbatim>\<open>UnknownClientError\<close>; so construction of a base request always raises.
\<close>

theorem base_request_never_valid:
  "(or_empty ps \<noteq> [] \<longrightarrow>
      Request_init [] reg m hs ps =
        (Inl (InvalidAuthorizationRequestError
               ''Some required request parameters are missing.''), [])) \<and>
   (or_empty ps = [] \<longrightarrow>
      client (assign_fields m hs ps) = None \<and>
      Request_init [] reg m hs ps = (Inl (UnknownClientError None), [])) \<and>
   isl (fst (Request_init [] reg m hs ps))"
proof -
  have nonempty: "Request_init [] reg m hs ps =
        (Inl (InvalidAuthorizationRequestError
               ''Some required request parameters are missing.''), [])"
    if "or_empty ps \<noteq> []"
    using that
    by (cases "or_empty ps") (simp_all add: Request_init_def validate_def assign_fields_def
        has_required_parameters_def Let_def)
  have empty: "client (assign_fields m hs ps) = None \<and>
      Request_init [] reg m hs ps = (Inl (UnknownClientError None), [])"
    if "or_empty ps = []"
    using that
    by (simp add: Request_init_def validate_def assign_fields_def
        has_required_parameters_def has_key_def Let_def)
  show ?thesis
    using nonempty empty by (cases "or_empty ps = []") simp_all
qed

text \<open>Claim C4 at a one-entry mapping, at no mapping and at the empty mapping.\<close>

theorem base_request_never_valid_witness:
  "Request_init [] registry_abc ''GET'' None (Some [(''client_id'', ''abc'')]) =
     (Inl (InvalidAuthorizationRequestError
            ''Some required request parameters are missing.''), []) \<and>
   Request_init [] registry_abc ''GET'' None None = (Inl (UnknownClientError None), []) \<and>
   Request_init [] registry_abc ''GET'' None (Some []) = (Inl (UnknownClientError None), [])"
  using base_request_never_valid [of "Some [(''client_id'', ''abc'')]" registry_abc "''GET''" None]
    base_request_never_valid [of None registry_abc "''GET''" None]
    base_request_never_valid [of "Some []" registry_abc "''GET''" None]
  by simp

section \<open>Client checks and their order\<close>

lemma world_simps:
  "self world_abc = assign_fields ''GET'' None (Some [(''client_id'', ''abc'')])"
  "self world_zzz = assign_fields ''GET'' None (Some [(''client_id'', ''zzz'')])"
  "self world_scope = assign_fields ''GET'' None (Some [(''scope'', ''read'')])"
  "self world_empty = assign_fields ''GET'' None None"
  "calls world_abc = []" "calls world_zzz = []" "calls world_scope = []" "calls world_empty = []"
  by (simp_all add: world_abc_def world_zzz_def world_scope_def world_empty_def)

lemma concrete_clients:
  "client (assign_fields ''GET'' None (Some [(''client_id'', ''abc'')])) = Some client_abc"
  "client (assign_fields ''GET'' None (Some [(''client_id'', ''zzz'')])) = Some client_zzz"
  "client (assign_fields ''GET'' None (Some [(''scope'', ''read'')])) = None"
  "client (assign_fields ''GET'' None None) = None"
  by (simp_all add: assign_fields_def has_key_def get_def Let_def client_abc_def client_zzz_def)

lemma concrete_checks:
  "has_required_parameters [''client_id'']
     (assign_fields ''GET'' None (Some [(''client_id'', ''abc'')]))"
  "has_required_parameters [''client_id'']
     (assign_fields ''GET'' None (Some [(''client_id'', ''zzz'')]))"
  "\<not> has_required_parameters [''client_id'']
     (assign_fields ''GET'' None (Some [(''scope'', ''read'')]))"
  "has_required_parameters [''client_id''] (assign_fields ''GET'' None None)"
  by (simp_all add: assign_fields_def has_required_parameters_def Let_def)

lemma concrete_registries:
  "is_registered registry_abc client_abc" "is_authorized registry_abc client_abc"
  "\<not> is_registered registry_abc client_zzz"
  "is_registered registry_unauthorized client_abc"
  "\<not> is_authorized registry_unauthorized client_abc"
  by (simp_all add: registry_abc_def registry_unauthorized_def client_abc_def client_zzz_def)

text \<open>
  Claim C5: when the required-parameter check passes and \<^verbatim>\<open>client_id\<close> is present, a
  client the registry does not know gives \<^verbatim>\<open>UnknownClientError\<close>, and a client it knows
  but does not authorize gives \<^verbatim>\<open>UnauthorizedClientError\<close>; conversely each of the two
  errors arises only from its own condition.
\<close>

theorem unknown_and_unauthorized_distinguished:
  assumes "has_required_parameters req (assign_fields m hs ps)"
    and "has_key (or_empty ps) ''client_id''"
    and "client (assign_fields m hs ps) = Some c"
  shows "(\<not> is_registered reg c \<longrightarrow>
            fst (Request_init req reg m hs ps) = Inl (UnknownClientError (Some c))) \<and>
         (is_registered reg c \<and> \<not> is_authorized reg c \<longrightarrow>
            fst (Request_init req reg m hs ps) = Inl (UnauthorizedClientError (Some c))) \<and>
         (fst (Request_init req reg m hs ps) = Inl (UnknownClientError x) \<longrightarrow>
            \<not> is_registered reg c) \<and>
         (fst (Request_init req reg m hs ps) = Inl (UnauthorizedClientError x) \<longrightarrow>
            is_registered reg c \<and> \<not> is_authorized reg c)"
  using assms(1,3)
  by (simp add: Request_init_def validate_def call_is_registered_def call_is_authorized_def)

text \<open>
  Claim C5 at Scenario D (\<^verbatim>\<open>zzz\<close> is not in the registry) and at a registered client that
  is not authorized.
\<close>

theorem unknown_and_unauthorized_distinguished_witness:
  "fst (Request_init [''client_id''] registry_abc ''GET'' None (Some [(''client_id'', ''zzz'')])) =
     Inl (UnknownClientError (Some client_zzz)) \<and>
   fst (Request_init [''client_id''] registry_unauthorized ''GET'' None
          (Some [(''client_id'', ''abc'')])) =
     Inl (UnauthorizedClientError (Some client_abc))"
  using unknown_and_unauthorized_distinguished
      [of "[''client_id'']" "''GET''" None "Some [(''client_id'', ''zzz'')]"
        client_zzz registry_abc]
    unknown_and_unauthorized_distinguished
      [of "[''client_id'']" "''GET''" None "Some [(''client_id'', ''abc'')]"
        client_abc registry_unauthorized]
  by (simp add: concrete_checks concrete_clients concrete_registries has_key_def)

text \<open>
  Claim C6: \<^verbatim>\<open>validate\<close> checks the required parameters, then that the client is not
  null, then \<^verbatim>\<open>is_registered()\<close>, then \<^verbatim>\<open>is_authorized()\<close>, and stops at the first
  failure. The log of registry lookups grows by nothing when one of the first two checks
  fails, by \<^verbatim>\<open>is_registered\<close> alone when the client is not registered, and by both
  lookups in this order otherwise. Accordingly the outcome does not depend on the registry
  when one of the first two checks fails, nor on the answers of \<^verbatim>\<open>is_authorized\<close> when the
  client is not registered.
\<close>

theorem validate_order_short_circuit:
  "(\<not> has_required_parameters req (self w) \<longrightarrow>
      fst (validate req reg w) =
        Inl (InvalidAuthorizationRequestError ''Some required request parameters are missing.'') \<and>
      calls (snd (validate req reg w)) = calls w \<and>
      validate req reg' w = validate req reg w) \<and>
   (has_required_parameters req (self w) \<and> client (self w) = None \<longrightarrow>
      fst (validate req reg w) = Inl (UnknownClientError None) \<and>
      calls (snd (validate req reg w)) = calls w \<and>
      validate req reg' w = validate req reg w) \<and>
   (has_required_parameters req (self w) \<and> client (self w) = Some c \<and>
    \<not> is_registered reg c \<longrightarrow>
      fst (validate req reg w) = Inl (UnknownClientError (Some c)) \<and>
      calls (snd (validate req reg w)) = calls w @ [IsRegistered c] \<and>
      validate req (reg\<lparr>is_authorized := f\<rparr>) w = validate req reg w) \<and>
   (has_required_parameters req (self w) \<and> client (self w) = Some c \<and>
    is_registered reg c \<and> \<not> is_authorized reg c \<longrightarrow>
      fst (validate req reg w) = Inl (UnauthorizedClientError (Some c)) \<and>
      calls (snd (validate req reg w)) = calls w @ [IsRegistered c, IsAuthorized c]) \<and>
   (has_required_parameters req (self w) \<and> client (self w) = Some c \<and>
    is_registered reg c \<and> is_authorized reg c \<longrightarrow>
      fst (validate req reg w) = Inr () \<and>
      calls (snd (validate req reg w)) = calls w @ [IsRegistered c, IsAuthorized c])"
  by (simp add: validate_def call_is_registered_def call_is_authorized_def)

text \<open>Claim C6 on one object for each of the five ways through \<^verbatim>\<open>validate\<close>.\<close>

theorem validate_order_short_circuit_witness:
  "fst (validate [''client_id''] registry_abc world_scope) =
     Inl (InvalidAuthorizationRequestError ''Some required request parameters are missing.'') \<and>
   calls (snd (validate [''client_id''] registry_abc world_scope)) = [] \<and>
   fst (validate [''client_id''] registry_abc world_empty) = Inl (UnknownClientError None) \<and>
   calls (snd (validate [''client_id''] registry_abc world_empty)) = [] \<and>
   fst (validate [''client_id''] registry_abc world_zzz) =
     Inl (UnknownClientError (Some client_zzz)) \<and>
   calls (snd (validate [''client_id''] registry_abc world_zzz)) = [IsRegistered client_zzz] \<and>
   fst (validate [''client_id''] registry_unauthorized world_abc) =
     Inl (UnauthorizedClientError (Some client_abc)) \<and>
   calls (snd (validate [''client_id''] registry_unauthorized world_abc)) =
     [IsRegistered client_abc, IsAuthorized client_abc] \<and>
   fst (validate [''client_id''] registry_abc world_abc) = Inr () \<and>
   calls (snd (validate [''client_id''] registry_abc world_abc)) =
     [IsRegistered client_abc, IsAuthorized client_abc]"
  using validate_order_short_circuit
      [of "[''client_id'']" world_scope registry_abc registry_abc client_abc "\<lambda>c. True"]
    validate_order_short_circuit
      [of "[''client_id'']" world_empty registry_abc registry_abc client_abc "\<lambda>c. True"]
    validate_order_short_circuit
      [of "[''client_id'']" world_zzz registry_abc registry_abc client_zzz "\<lambda>c. True"]
    validate_order_short_circuit
      [of "[''client_id'']" world_abc registry_unauthorized registry_abc client_abc "\<lambda>c. True"]
    validate_order_short_circuit
      [of "[''client_id'']" world_abc registry_abc registry_abc client_abc "\<lambda>c. True"]
  by (simp add: world_simps concrete_checks concrete_clients concrete_registries)

text \<open>
  Claim C9: \<^verbatim>\<open>validate\<close> leaves the object as it found it, whatever the outcome, and
  after a run without error a second run on the resulting object is again without error
  and again leaves the object unchanged.
\<close>

theorem validate_idempotent:
  "self (snd (validate req reg w)) = self w \<and>
   (fst (validate req reg w) = Inr () \<longrightarrow>
      fst (validate req reg (snd (validate req reg w))) = Inr () \<and>
      self (snd (validate req reg (snd (validate req reg w)))) = self w)"
  by (cases "client (self w)")
    (auto simp add: validate_def call_is_registered_def call_is_authorized_def)

text \<open>Claim C9 on the valid object built from \<^verbatim>\<open>{client_id: "abc"}\<close>.\<close>

theorem validate_idempotent_witness:
  "fst (validate [''client_id''] registry_abc world_abc) = Inr () \<and>
   fst (validate [''client_id''] registry_abc
          (snd (validate [''client_id''] registry_abc world_abc))) = Inr () \<and>
   self (snd (validate [''client_id''] registry_abc
               (snd (validate [''client_id''] registry_abc world_abc)))) = self world_abc"
proof -
  have first: "fst (validate [''client_id''] registry_abc world_abc) = Inr ()"
    by (simp add: validate_def call_is_registered_def call_is_authorized_def
        world_simps concrete_checks concrete_clients concrete_registries)
  show ?thesis
    using first validate_idempotent [of "[''client_id'']" registry_abc world_abc]
    by simp
qed

section \<open>Header accessors\<close>

lemma lower_concrete:
  "lower ''Content-Type'' = ''content-type''"
  "lower ''CONTENT-TYPE'' = ''content-type''"
  "lower ''content-type'' = ''content-type''"
  "lower ''Accept'' = ''accept''"
  by code_simp+

lemma concrete_headers:
  "headers request_json = [(''Content-Type'', Some ''application/json'')]"
  "headers request_duplicates =
     [(''Accept'', Some ''text/html'')] @
     (''Content-Type'', Some ''application/json'') # [(''content-type'', Some ''text/plain'')]"
  by (simp_all add: request_json_def request_duplicates_def assign_fields_def Let_def)

lemma has_header_iff:
  "has_header r h \<longleftrightarrow> (\<exists>k v. (k, v) \<in> set (headers r) \<and> lower k = lower h)"
  by (force simp add: has_header_def list_ex_iff)

lemma next_default_filter:
  "list_all (\<lambda>kv. snd kv \<noteq> None) kvs \<Longrightarrow>
   next_default (map snd (filter P kvs)) None \<noteq> None \<longleftrightarrow> (\<exists>kv \<in> set kvs. P kv)"
  by (induction kvs) auto

lemma next_default_filter_Some:
  "next_default (map snd (filter P kvs)) None = Some x \<Longrightarrow>
   \<exists>kv \<in> set kvs. P kv \<and> snd kv = Some x"
  by (induction kvs) (auto split: if_splits)

lemma get_header_first:
  "list_all (\<lambda>kv. lower (fst kv) \<noteq> lower name) pre \<Longrightarrow> lower k = lower name \<Longrightarrow>
   next_default (map snd (filter (\<lambda>(k, v). lower k = lower name) (pre @ (k, v) # post))) None = v"
  by (induction pre) auto

lemma get_header_casing: "lower h = lower h' \<Longrightarrow> get_header r h = get_header r h'"
  by (simp add: get_header_def)

lemma has_header_casing: "lower h = lower h' \<Longrightarrow> has_header r h = has_header r h'"
  by (simp add: has_header_def)

text \<open>
  Claim C7: when no header value is null, \<^verbatim>\<open>has_header(h)\<close> is true exactly when
  \<^verbatim>\<open>get_header(h)\<close> is not null. Both lookups compare names after lowercasing:
  \<^verbatim>\<open>has_header(h)\<close> holds exactly when some stored name equals \<^verbatim>\<open>h\<close> up to case, a
  value returned by \<^verbatim>\<open>get_header(h)\<close> is stored under such a name, and two query names
  that are equal up to case get the same answers.
\<close>

theorem has_header_iff_get_header:
  "(list_all (\<lambda>kv. snd kv \<noteq> None) (headers r) \<longrightarrow>
      has_header r h = (get_header r h \<noteq> None)) \<and>
   (has_header r h \<longleftrightarrow> list_ex (\<lambda>kv. lower (fst kv) = lower h) (headers r)) \<and>
   (get_header r h = Some x \<longrightarrow>
      list_ex (\<lambda>kv. lower (fst kv) = lower h \<and> snd kv = Some x) (headers r)) \<and>
   (lower h = lower h' \<longrightarrow>
      has_header r h = has_header r h' \<and> get_header r h = get_header r h')"
proof -
  have consistent: "has_header r h = (get_header r h \<noteq> None)"
    if "list_all (\<lambda>kv. snd kv \<noteq> None) (headers r)"
  proof -
    have "get_header r h \<noteq> None \<longleftrightarrow>
        (\<exists>kv \<in> set (headers r). (case kv of (k, v) \<Rightarrow> lower k = lower h))"
      unfolding get_header_def using that by (rule next_default_filter)
    also have "\<dots> \<longleftrightarrow> (\<exists>k v. (k, v) \<in> set (headers r) \<and> lower k = lower h)"
      by auto
    finally show ?thesis
      by (simp add: has_header_iff)
  qed
  have some_name: "has_header r h \<longleftrightarrow> list_ex (\<lambda>kv. lower (fst kv) = lower h) (headers r)"
    by (force simp add: has_header_iff list_ex_iff)
  have stored: "list_ex (\<lambda>kv. lower (fst kv) = lower h \<and> snd kv = Some x) (headers r)"
    if "get_header r h = Some x"
    using next_default_filter_Some [OF that [unfolded get_header_def]]
    by (force simp add: list_ex_iff)
  show ?thesis
    using consistent some_name stored get_header_casing has_header_casing by blast
qed

text \<open>
  Claim C7 at Scenario E: with the header \<^verbatim>\<open>Content-Type: application/json\<close>,
  \<^verbatim>\<open>has_header("content-type")\<close> is true and \<^verbatim>\<open>get_header("CONTENT-TYPE")\<close> returns
  the value.
\<close>

theorem has_header_iff_get_header_witness:
  "list_all (\<lambda>kv. snd kv \<noteq> None) (headers request_json) \<and>
   lower ''content-type'' = lower ''CONTENT-TYPE'' \<and>
   has_header request_json ''content-type'' \<and>
   has_header request_json ''CONTENT-TYPE'' \<and>
   get_header request_json ''content-type'' = Some ''application/json'' \<and>
   get_header request_json ''CONTENT-TYPE'' = Some ''application/json''"
proof -
  have stored: "get_header request_json ''CONTENT-TYPE'' = Some ''application/json''"
    by (simp add: get_header_def concrete_headers lower_concrete)
  show ?thesis
    using stored
      has_header_iff_get_header [of request_json "''content-type''" "''application/json''"
        "''CONTENT-TYPE''"]
    by (auto simp add: concrete_headers lower_concrete)
qed

text \<open>
  Claim C8: when several stored names match the query up to case, \<^verbatim>\<open>get_header\<close>
  returns the value of the first of them in the iteration order of the mapping.
\<close>

theorem get_header_first_match:
  assumes "headers r = pre @ (k, v) # post"
    and "lower k = lower name"
    and "list_all (\<lambda>kv. lower (fst kv) \<noteq> lower name) pre"
  shows "get_header r name = v"
  by (simp only: get_header_def assms(1) get_header_first [OF assms(3,2)])

text \<open>
  Claim C8 on headers \<^verbatim>\<open>Accept\<close>, \<^verbatim>\<open>Content-Type\<close>, \<^verbatim>\<open>content-type\<close>: the query
  \<^verbatim>\<open>CONTENT-TYPE\<close> gets the value stored under \<^verbatim>\<open>Content-Type\<close>.
\<close>

theorem get_header_first_match_witness:
  "get_header request_duplicates ''CONTENT-TYPE'' = Some ''application/json''"
  using get_header_first_match
      [of request_duplicates "[(''Accept'', Some ''text/html'')]" "''Content-Type''"
        "Some ''application/json''" "[(''content-type'', Some ''text/plain'')]"
        "''CONTENT-TYPE''"]
  by (simp add: concrete_headers lower_concrete)

section \<open>Credential extraction\<close>

text \<open>
  Claim C10: the client is non-null exactly when the key \<^verbatim>\<open>client_id\<close> is present, and
  then it is built from credentials whose identifier is the value stored under
  \<^verbatim>\<open>client_id\<close>, whatever that value is, and whose secret is
  \<^verbatim>\<open>parameters.get('client_secret')\<close>.
\<close>

theorem credentials_by_key_presence:
  "(client (assign_fields m hs ps) \<noteq> None) = has_key (or_empty ps) ''client_id'' \<and>
   (get d ''client_id'' = Some v \<longrightarrow>
      client (assign_fields m hs (Some d)) =
        Some \<lparr> credentials = \<lparr> identifier = v, secret = get d ''client_secret'' \<rparr> \<rparr>)"
proof -
  have "has_key d ''client_id''" and "d \<noteq> []" if "get d ''client_id'' = Some v"
    using that by (auto simp add: get_def has_key_def dest: map_of_SomeD intro: rev_image_eqI)
  then show ?thesis
    by (simp add: assign_fields_def Let_def)
qed

text \<open>Claim C10 at an empty identifier, without and with a secret.\<close>

theorem credentials_by_key_presence_witness:
  "client (assign_fields ''GET'' None (Some [(''client_id'', [])])) =
     Some \<lparr> credentials = \<lparr> identifier = [], secret = None \<rparr> \<rparr> \<and>
   client (assign_fields ''GET'' None
             (Some [(''client_id'', []), (''client_secret'', ''s3cr3t'')])) =
     Some \<lparr> credentials = \<lparr> identifier = [], secret = Some ''s3cr3t'' \<rparr> \<rparr>"
  using credentials_by_key_presence
      [of "''GET''" None None "[(''client_id'', [])]" "[]"]
    credentials_by_key_presence
      [of "''GET''" None None "[(''client_id'', []), (''client_secret'', ''s3cr3t'')]" "[]"]
  by (simp add: get_def)

end
